theory Spec2Isabelle
  imports Main "HOL-Library.AList"
begin

section \<open>Python values, exceptions and text\<close>

text \<open>
  The values that flow through \<^verbatim>\<open>termai.py\<close> are the ones \<^verbatim>\<open>json.load\<close> produces:
  \<^verbatim>\<open>None\<close>, booleans, integers, floats, strings, lists and dictionaries with string
  keys. A dictionary is an association list (Python keeps insertion order); a key is
  looked up with \<open>map_of\<close>. A float is kept as the decimal literal \<open>m * 10^e\<close>: the
  program never computes with one, it only passes them through.

  A string is a list of characters; a character stands for the code point of the same
  number, so the model covers text whose code points are below 256.
\<close>

datatype json =
    JNull
  | JBool bool
  | JInt int
  | JFloat int int
  | JStr string
  | JArr "json list"
  | JObj "(string \<times> json) list"

datatype exn =
    IndexError
  | KeyError json
  | TypeError
  | AttributeError
  | EOFError
  | JSONDecodeError
  | UnicodeDecodeError
  | RecursionError
  | RequestException string
  | OSError string

text \<open>
  An f-string is the list of its pieces: \<open>Lit\<close> for the literal text between the
  braces, \<open>Fmt v\<close> for an interpolated value \<open>{v}\<close> (a string value prints as itself),
  \<open>FmtExc x\<close> for an interpolated exception.
\<close>

datatype piece = Lit string | Fmt json | FmtExc exn

type_synonym fstring = "piece list"

text \<open>The characters for which \<^verbatim>\<open>str.isspace\<close> holds, among the code points below 256.\<close>

definition isspace :: "char \<Rightarrow> bool" where
  "isspace c = (c \<in> set [CHR 0x09, CHR 0x0A, CHR 0x0B, CHR 0x0C, CHR 0x0D,
                          CHR 0x1C, CHR 0x1D, CHR 0x1E, CHR 0x1F, CHR 0x20,
                          CHR 0x85, CHR 0xA0])"

text \<open>
  What reading a file opened in text mode makes of its text: a carriage return, alone
  or followed by a line feed, becomes one line feed.
\<close>

fun text_mode :: "string \<Rightarrow> string" where
  "text_mode [] = []"
| "text_mode [c] = [if c = CHR 0x0D then CHR 0x0A else c]"
| "text_mode (c # d # cs) =
     (if c = CHR 0x0D then
        (if d = CHR 0x0A then CHR 0x0A # text_mode cs else CHR 0x0A # text_mode (d # cs))
      else c # text_mode (d # cs))"

text \<open>\<^verbatim>\<open>s.lstrip()\<close>, \<^verbatim>\<open>s.rstrip()\<close> and \<^verbatim>\<open>s.strip()\<close>.\<close>

definition lstrip :: "string \<Rightarrow> string" where
  "lstrip s = dropWhile isspace s"

definition rstrip :: "string \<Rightarrow> string" where
  "rstrip s = rev (dropWhile isspace (rev s))"

definition strip :: "string \<Rightarrow> string" where
  "strip s = rstrip (lstrip s)"

text \<open>\<^verbatim>\<open>" ".join(args)\<close>.\<close>

fun join_sp :: "string list \<Rightarrow> string" where
  "join_sp [] = []"
| "join_sp [a] = a"
| "join_sp (a # b # bs) = a @ '' '' @ join_sp (b # bs)"

text \<open>\<^verbatim>\<open>k in s\<close> for two strings: \<open>k\<close> occurs in \<open>s\<close> as a contiguous run.\<close>

fun is_substr :: "string \<Rightarrow> string \<Rightarrow> bool" where
  "is_substr k [] = (k = [])"
| "is_substr k (c # cs) = (take (length k) (c # cs) = k \<or> is_substr k cs)"

text \<open>
  The operators the program applies to parsed JSON, with the exception Python raises
  where the operand has the wrong type: \<^verbatim>\<open>k in x\<close>, \<^verbatim>\<open>x[k]\<close> for a string \<open>k\<close>,
  \<^verbatim>\<open>x[0]\<close>, \<^verbatim>\<open>x.get(k, default)\<close> and \<^verbatim>\<open>x.strip()\<close>.
\<close>

fun py_in :: "string \<Rightarrow> json \<Rightarrow> exn + bool" where
  "py_in k (JObj kvs) = Inr (map_of kvs k \<noteq> None)"
| "py_in k (JArr xs) = Inr (JStr k \<in> set xs)"
| "py_in k (JStr s) = Inr (is_substr k s)"
| "py_in k _ = Inl TypeError"

fun getitem :: "json \<Rightarrow> string \<Rightarrow> exn + json" where
  "getitem (JObj kvs) k = (case map_of kvs k of None \<Rightarrow> Inl (KeyError (JStr k)) | Some v \<Rightarrow> Inr v)"
| "getitem _ k = Inl TypeError"

fun getitem0 :: "json \<Rightarrow> exn + json" where
  "getitem0 (JArr xs) = (case xs of [] \<Rightarrow> Inl IndexError | x # _ \<Rightarrow> Inr x)"
| "getitem0 (JStr s) = (case s of [] \<Rightarrow> Inl IndexError | c # _ \<Rightarrow> Inr (JStr [c]))"
| "getitem0 (JObj kvs) = Inl (KeyError (JInt 0))"
| "getitem0 _ = Inl TypeError"

fun py_get :: "json \<Rightarrow> string \<Rightarrow> json \<Rightarrow> exn + json" where
  "py_get (JObj kvs) k dflt = Inr (case map_of kvs k of None \<Rightarrow> dflt | Some v \<Rightarrow> v)"
| "py_get _ k dflt = Inl AttributeError"

fun py_strip :: "json \<Rightarrow> exn + json" where
  "py_strip (JStr s) = Inr (JStr (strip s))"
| "py_strip _ = Inl AttributeError"

text \<open>Sequencing of expressions that may raise: the first exception wins.\<close>

definition and_then :: "exn + 'a \<Rightarrow> ('a \<Rightarrow> exn + 'b) \<Rightarrow> exn + 'b" where
  "and_then r f = (case r of Inl x \<Rightarrow> Inl x | Inr a \<Rightarrow> f a)"

section \<open>The process and its environment\<close>

text \<open>
  The data directory \<^verbatim>\<open>~/.local/share/termai\<close> is either missing or holds up to three
  files: \<^verbatim>\<open>config.json\<close>, \<^verbatim>\<open>key\<close> and \<^verbatim>\<open>key.bak\<close>. The content of \<^verbatim>\<open>config.json\<close>
  is kept as what \<^verbatim>\<open>json.load\<close> on the file opened in text mode makes of it:
  \<^item> \<open>JSON j\<close>: it returns the value \<open>j\<close>;
  \<^item> \<open>NotJSON\<close>: it raises \<^verbatim>\<open>JSONDecodeError\<close> (text that is not a JSON document);
  \<^item> \<open>NotUTF8\<close>: reading the file raises \<^verbatim>\<open>UnicodeDecodeError\<close> (bytes that are not text
    in the encoding of the locale);
  \<^item> \<open>TooDeep\<close>: the parser raises \<^verbatim>\<open>RecursionError\<close> (brackets nested deeper than the
    interpreter's recursion limit).

  What \<^verbatim>\<open>json.dump\<close> writes parses back to the value written. The legacy key file holds
  text; its content is kept as stored, before the newline translation of text mode.
  Failures of the file system itself (permissions, a full disk) are outside the model.
\<close>

datatype config_text = NotJSON | NotUTF8 | TooDeep | JSON json

record dir =
  config_file :: "config_text option"
  key_file :: "string option"
  key_bak :: "string option"

definition empty_dir :: dir where
  "empty_dir = \<lparr>config_file = None, key_file = None, key_bak = None\<rparr>"

datatype http_result =
    NetworkError exn
  | Response int string "json option"
  \<comment> \<open>\<^verbatim>\<open>status_code\<close>, \<^verbatim>\<open>text\<close>, and \<^verbatim>\<open>json()\<close> (\<open>None\<close> when the body is not JSON)\<close>

text \<open>Everything the process does that can be observed from outside, in order.\<close>

datatype event =
    Mkdir
  | ReadConfig
  | ReadKey
  | RenameKey
  | WriteConfig json
  | Print fstring
  | Input string
  | ReadStdin
  | Spawn "string list"
  | Post fstring json

text \<open>What the process is started with and cannot change.\<close>

record env =
  argv :: "string list"
  isatty :: bool
  home :: string
  EDITOR :: "string option"
  http :: "fstring \<Rightarrow> json \<Rightarrow> http_result"
  subprocess_call :: "string list \<Rightarrow> exn option"

text \<open>
  What the process changes: the files, the unread part of standard input, the trace.
  Standard input is held as the text Python reads from it, decoded and with the line
  ends already translated.
\<close>

record state =
  fs :: "dir option"
  stdin :: string
  trace :: "event list"

text \<open>
  How a piece of the program ends: it returns a value, raises an exception, or calls
  \<^verbatim>\<open>sys.exit\<close>. An exception that reaches the top level ends the process with status 1.
\<close>

datatype 'a res = Ok 'a | Raise exn | SysExit int

fun exit_code :: "'a res \<Rightarrow> int" where
  "exit_code (Ok _) = 0"
| "exit_code (Raise _) = 1"
| "exit_code (SysExit n) = n"

definition emits :: "event list \<Rightarrow> state \<Rightarrow> state" where
  "emits es s = s\<lparr>trace := trace s @ es\<rparr>"

text \<open>\<^verbatim>\<open>input()\<close>: one line of standard input without its newline; \<^verbatim>\<open>EOFError\<close> at the end.\<close>

definition readline :: "string \<Rightarrow> (string \<times> string) option" where
  "readline inp =
     (if inp = [] then None
      else Some (takeWhile (\<lambda>c. c \<noteq> CHR 0x0A) inp,
                 drop 1 (dropWhile (\<lambda>c. c \<noteq> CHR 0x0A) inp)))"

section \<open>Constants of the program\<close>

definition APP_NAME :: string where
  "APP_NAME = ''termai''"

text \<open>
  \<^verbatim>\<open>p / q\<close> of \<^verbatim>\<open>pathlib\<close>, as text, for a path \<open>p\<close> in the form \<^verbatim>\<open>pathlib\<close> prints and a relative
  \<open>q\<close>: no separator is added after a root (\<^verbatim>\<open>/\<close>), and the path \<^verbatim>\<open>.\<close> disappears.
\<close>

definition joinpath :: "string \<Rightarrow> string \<Rightarrow> string" where
  "joinpath p q =
     (if p = ''.'' then q
      else if p \<noteq> [] \<and> last p = CHR ''/'' then p @ q
      else p @ ''/'' @ q)"

text \<open>The field \<open>home\<close> of the environment is \<^verbatim>\<open>Path.home()\<close> as \<^verbatim>\<open>pathlib\<close> prints it.\<close>

definition DATA_DIR :: "env \<Rightarrow> string" where
  "DATA_DIR e = joinpath (joinpath (home e) ''.local/share'') APP_NAME"

definition CONFIG_FILE :: "env \<Rightarrow> string" where
  "CONFIG_FILE e = joinpath (DATA_DIR e) ''config.json''"

definition GREEN :: string where
  "GREEN = CHR 0x1B # ''[92m''"

definition CYAN :: string where
  "CYAN = CHR 0x1B # ''[96m''"

definition YELLOW :: string where
  "YELLOW = CHR 0x1B # ''[93m''"

definition RESET :: string where
  "RESET = CHR 0x1B # ''[0m''"

definition DEFAULT_CONFIG :: "(string \<times> json) list" where
  "DEFAULT_CONFIG =
     [(''api_key'', JStr ''''),
      (''model_name'', JStr ''gemini-2.5-flash''),
      (''system_instruction'',
         JStr (''You are a CLI assistant specific to Termux. '' @
               ''Do NOT use Markdown. Do NOT use backticks. '' @
               ''Do NOT use bolding. Just write plain text. '' @
               ''Keep answers concise.'')),
      (''generation_config'',
         JObj [(''temperature'', JFloat 7 (- 1)),
               (''top_p'', JFloat 9 (- 1)),
               (''top_k'', JInt 40),
               (''maxOutputTokens'', JInt 1024)])]"

section \<open>\<^verbatim>\<open>load_config\<close>\<close>

text \<open>Lines 48-49: the data directory is created when it is missing.\<close>

definition ensure_dir :: "state \<Rightarrow> dir \<times> state" where
  "ensure_dir s =
     (case fs s of
        None \<Rightarrow> (empty_dir, emits [Mkdir] (s\<lparr>fs := Some empty_dir\<rparr>))
      | Some d \<Rightarrow> (d, s))"

text \<open>
  Lines 62-68: the legacy key file, when there is one, is read in text mode, stripped
  and renamed to \<^verbatim>\<open>key.bak\<close> (a rename replaces an older backup).
\<close>

definition migrate :: "dir \<Rightarrow> state \<Rightarrow> string \<times> dir \<times> state" where
  "migrate d s =
     (case key_file d of
        None \<Rightarrow> ('''', d, s)
      | Some k \<Rightarrow>
          (let d' = d\<lparr>key_file := None, key_bak := Some k\<rparr>
           in (strip (text_mode k), d',
               emits [Print [Lit ''['', Fmt (JStr APP_NAME),
                             Lit ''] Migrating legacy key file to new config format...''],
                      ReadKey, RenameKey] (s\<lparr>fs := Some d'\<rparr>))))"

text \<open>Lines 71-76: without a key the user is asked for one; an empty answer is fatal.\<close>

definition first_run :: "string \<Rightarrow> state \<Rightarrow> string res \<times> state" where
  "first_run api_key s =
     (if api_key = '''' then
        (let s1 = emits [Print [Lit ''['', Fmt (JStr APP_NAME),
                   Lit ''] First run! Enter your Gemini API Key. Get the API key from aistudio.google.com''],
                         Input ''API Key: ''] s
         in case readline (stdin s1) of
              None \<Rightarrow> (Raise EOFError, s1)
            | Some (line, rest) \<Rightarrow>
                (let s2 = s1\<lparr>stdin := rest\<rparr>
                 in if strip line = ''''
                    then (SysExit 1, emits [Print [Lit ''Error: Key cannot be empty.'']] s2)
                    else (Ok (strip line), s2)))
      else (Ok api_key, s))"

text \<open>Lines 79-87: the defaults with the key filled in are written and returned.\<close>

definition save_config :: "env \<Rightarrow> string \<Rightarrow> dir \<Rightarrow> state \<Rightarrow> json res \<times> state" where
  "save_config e api_key d s =
     (let new_config = JObj (AList.update ''api_key'' (JStr api_key) DEFAULT_CONFIG)
      in (Ok new_config,
          emits [WriteConfig new_config,
                 Print [Lit ''Configuration saved to '', Fmt (JStr (CONFIG_FILE e)),
                        Lit [CHR 0x0A]]]
            (s\<lparr>fs := Some (d\<lparr>config_file := Some (JSON new_config)\<rparr>)\<rparr>)))"

definition load_config :: "env \<Rightarrow> state \<Rightarrow> json res \<times> state" where
  "load_config e s0 =
     (case ensure_dir s0 of (d, s1) \<Rightarrow>
        (case config_file d of
           Some (JSON j) \<Rightarrow> (Ok j, emits [ReadConfig] s1)
         | Some NotUTF8 \<Rightarrow> (Raise UnicodeDecodeError, emits [ReadConfig] s1)
         | Some TooDeep \<Rightarrow> (Raise RecursionError, emits [ReadConfig] s1)
         | Some NotJSON \<Rightarrow>
             (SysExit 1,
              emits [ReadConfig,
                     Print [Lit ''[Error] Your config file ('', Fmt (JStr (CONFIG_FILE e)),
                            Lit '') is invalid JSON.''],
                     Print [Lit ''Please fix it or delete it to reset defaults.'']] s1)
         | None \<Rightarrow>
             (case migrate d s1 of (api_key, d2, s2) \<Rightarrow>
                (case first_run api_key s2 of
                   (Ok k, s3) \<Rightarrow> save_config e k d2 s3
                 | (Raise x, s3) \<Rightarrow> (Raise x, s3)
                 | (SysExit n, s3) \<Rightarrow> (SysExit n, s3)))))"

section \<open>\<^verbatim>\<open>print_help\<close> and \<^verbatim>\<open>open_editor\<close>\<close>

definition help_text :: "fstring list" where
  "help_text =
     [[Lit [CHR 0x0A], Fmt (JStr GREEN), Lit ''Termai - Termux AI Assistant'', Fmt (JStr RESET)],
      [Lit ''A lightweight CLI tool for Gemini AI integration in Termux.'', Lit [CHR 0x0A]],
      [Fmt (JStr YELLOW), Lit ''Usage:'', Fmt (JStr RESET)],
      [Lit (''  ai [OPTIONS] '' @ [CHR 0x22] @ ''YOUR QUERY'' @ [CHR 0x22])],
      [Lit (''  cat file.txt | ai [OPTIONS] '' @ [CHR 0x22] @ ''OPTIONAL PROMPT'' @ [CHR 0x22])],
      [Lit [CHR 0x0A], Fmt (JStr YELLOW), Lit ''Options:'', Fmt (JStr RESET)],
      [Lit ''  '', Fmt (JStr CYAN), Lit ''--config'', Fmt (JStr RESET),
       Lit ''      Open configuration file (Edit API key, Model, Prompts)''],
      [Lit ''  '', Fmt (JStr CYAN), Lit ''--debug'', Fmt (JStr RESET),
       Lit ''       Enable debug mode (Show raw status codes and errors)''],
      [Lit ''  '', Fmt (JStr CYAN), Lit ''--help, -h'', Fmt (JStr RESET),
       Lit ''    Show this help message''],
      [Lit [CHR 0x0A], Fmt (JStr YELLOW), Lit ''Examples:'', Fmt (JStr RESET)],
      [Lit (''  ai '' @ [CHR 0x22] @ ''How do I unzip a tar file?'' @ [CHR 0x22])],
      [Lit ''  ai --config''],
      [Lit (''  cat error.log | ai '' @ [CHR 0x22] @ ''Explain this error briefly'' @ [CHR 0x22])]]"

definition print_help :: "state \<Rightarrow> 'a res \<times> state" where
  "print_help s = (SysExit 0, emits (map Print help_text) s)"

definition open_editor :: "env \<Rightarrow> state \<Rightarrow> 'a res \<times> state" where
  "open_editor e s =
     (let editor = (case EDITOR e of None \<Rightarrow> ''nano'' | Some ed \<Rightarrow> ed);
          s1 = emits [Print [Lit ''Opening config in '', Fmt (JStr editor), Lit ''...''],
                      Spawn [editor, CONFIG_FILE e]] s
      in case subprocess_call e [editor, CONFIG_FILE e] of
           Some x \<Rightarrow> (Raise x, s1)
         | None \<Rightarrow> (SysExit 0, s1))"

section \<open>\<^verbatim>\<open>main\<close>\<close>

definition FLAGS :: "string list" where
  "FLAGS = [''--debug'', ''--config'', ''--help'', ''-h'']"

text \<open>Line 129: the arguments after the program name that are not flags.\<close>

definition filter_flags :: "string list \<Rightarrow> string list" where
  "filter_flags av = filter (\<lambda>arg. arg \<notin> set FLAGS) (tl av)"

text \<open>Lines 132-142: the text sent to the model.\<close>

definition input_handling :: "env \<Rightarrow> string list \<Rightarrow> state \<Rightarrow> string res \<times> state" where
  "input_handling e args s =
     (if \<not> isatty e then
        (let user_input = strip (stdin s);
             s1 = emits [ReadStdin] (s\<lparr>stdin := []\<rparr>)
         in (Ok (if args \<noteq> [] then user_input @ [CHR 0x0A] @ join_sp args else user_input), s1))
      else if args \<noteq> [] then (Ok (join_sp args), s)
      else print_help s)"

text \<open>Line 151: the request URL, with the model name and the key interpolated.\<close>

definition api_url :: "json \<Rightarrow> json \<Rightarrow> fstring" where
  "api_url model_name api_key =
     [Lit ''https://generativelanguage.googleapis.com/v1beta/models/'', Fmt model_name,
      Lit '':generateContent?key='', Fmt api_key]"

text \<open>Lines 154-158: the request body.\<close>

definition payload :: "string \<Rightarrow> json \<Rightarrow> json \<Rightarrow> json" where
  "payload user_input system_instr gen_config =
     JObj [(''contents'', JArr [JObj [(''parts'', JArr [JObj [(''text'', JStr user_input)]])]]),
           (''systemInstruction'', JObj [(''parts'', JArr [JObj [(''text'', system_instr)]])]),
           (''generationConfig'', gen_config)]"

text \<open>
  Lines 176-193, inside the \<^verbatim>\<open>try\<close>: the parsed response is printed. Line 177 is
  \<open>blocked_check\<close>, the expression of line 187 is \<open>candidate_text\<close>.
\<close>

definition blocked_check :: "json \<Rightarrow> exn + bool" where
  "blocked_check data =
     and_then (py_in ''promptFeedback'' data) (\<lambda>b.
       if b then and_then (getitem data ''promptFeedback'') (py_in ''blockReason'')
       else Inr False)"

definition candidate_text :: "json \<Rightarrow> exn + json" where
  "candidate_text cand =
     and_then (getitem cand ''content'') (\<lambda>content.
     and_then (getitem content ''parts'') (\<lambda>parts.
     and_then (getitem0 parts) (\<lambda>part.
     and_then (getitem part ''text'') py_strip)))"

definition render :: "bool \<Rightarrow> json \<Rightarrow> state \<Rightarrow> unit res \<times> state" where
  "render debug_mode data s =
     (case blocked_check data of
        Inl x \<Rightarrow> (Raise x, s)
      | Inr True \<Rightarrow>
          (case and_then (getitem data ''promptFeedback'') (\<lambda>pf. getitem pf ''blockReason'') of
             Inl x \<Rightarrow> (Raise x, s)
           | Inr reason \<Rightarrow> (SysExit 0, emits [Print [Lit ''[Blocked] Reason: '', Fmt reason]] s))
      | Inr False \<Rightarrow>
          (case py_in ''candidates'' data of
             Inl x \<Rightarrow> (Raise x, s)
           | Inr False \<Rightarrow>
               (Ok (), emits (Print [Lit ''[Error] Invalid response format''] #
                              (if debug_mode then [Print [Fmt data]] else [])) s)
           | Inr True \<Rightarrow>
               (case and_then (getitem data ''candidates'') getitem0 of
                  Inl x \<Rightarrow> (Raise x, s)
                | Inr cand \<Rightarrow>
                    (case py_in ''content'' cand of
                       Inl x \<Rightarrow> (Raise x, s)
                     | Inr True \<Rightarrow>
                         (case candidate_text cand of
                            Inl x \<Rightarrow> (Raise x, s)
                          | Inr text \<Rightarrow>
                              (Ok (), emits [Print [Fmt (JStr GREEN), Fmt text, Fmt (JStr RESET)]] s))
                     | Inr False \<Rightarrow>
                         (Ok (), emits (Print [Lit ''[No content returned]''] #
                                        (if debug_mode then [Print [Fmt data]] else [])) s)))))"

text \<open>Lines 164-193: the body of the \<^verbatim>\<open>try\<close>.\<close>

definition try_body :: "env \<Rightarrow> bool \<Rightarrow> fstring \<Rightarrow> json \<Rightarrow> state \<Rightarrow> unit res \<times> state" where
  "try_body e debug_mode url body s =
     (let s1 = emits [Post url body] s
      in case http e url body of
           NetworkError x \<Rightarrow> (Raise x, s1)
         | Response status_code text js \<Rightarrow>
             (let s2 = (if debug_mode
                        then emits [Print [Lit ''[Debug] Status: '', Fmt (JInt status_code)]] s1
                        else s1)
              in if status_code \<noteq> 200
                 then (SysExit 1,
                       emits [Print [Lit [CHR 0x0A], Lit ''[Error '', Fmt (JInt status_code), Lit '']''],
                              Print [Fmt (JStr text)]] s2)
                 else (case js of
                         None \<Rightarrow> (Raise JSONDecodeError, s2)
                       | Some data \<Rightarrow> render debug_mode data s2)))"

text \<open>
  Lines 163-196: \<^verbatim>\<open>except Exception\<close> catches every exception of the body and lets
  \<^verbatim>\<open>sys.exit\<close> through.
\<close>

definition send_request :: "env \<Rightarrow> bool \<Rightarrow> fstring \<Rightarrow> json \<Rightarrow> state \<Rightarrow> unit res \<times> state" where
  "send_request e debug_mode url body s =
     (case try_body e debug_mode url body s of
        (Raise x, s1) \<Rightarrow>
          (Ok (), emits [Print [Lit [CHR 0x0A], Lit ''[Connection Error] '', FmtExc x]] s1)
      | (Ok u, s1) \<Rightarrow> (Ok u, s1)
      | (SysExit n, s1) \<Rightarrow> (SysExit n, s1))"

text \<open>
  Lines 145-196: the variables read from the configuration, the debug line, the request.
  The \<^verbatim>\<open>get\<close> calls are outside the \<^verbatim>\<open>try\<close>: what they raise is not caught.
\<close>

definition request :: "env \<Rightarrow> bool \<Rightarrow> json \<Rightarrow> string \<Rightarrow> state \<Rightarrow> unit res \<times> state" where
  "request e debug_mode config user_input s =
     (case and_then (py_get config ''api_key'' JNull) (\<lambda>api_key.
           and_then (py_get config ''model_name'' (JStr ''gemini-2.5-flash'')) (\<lambda>model_name.
           and_then (py_get config ''system_instruction'' (JStr [])) (\<lambda>system_instr.
           and_then (py_get config ''generation_config'' (JObj [])) (\<lambda>gen_config.
             Inr (api_key, model_name, system_instr, gen_config))))) of
        Inl x \<Rightarrow> (Raise x, s)
      | Inr (api_key, model_name, system_instr, gen_config) \<Rightarrow>
          (let url = api_url model_name api_key;
               body = payload user_input system_instr gen_config
           in if debug_mode then
                (case py_get gen_config ''temperature'' JNull of
                   Inl x \<Rightarrow> (Raise x, s)
                 | Inr temp \<Rightarrow>
                     send_request e debug_mode url body
                       (emits [Print [Lit ''[Debug] Model: '', Fmt model_name,
                                      Lit '' | Temp: '', Fmt temp]] s))
              else send_request e debug_mode url body s))"

definition main :: "env \<Rightarrow> state \<Rightarrow> unit res \<times> state" where
  "main e s0 =
     (case load_config e s0 of
        (Raise x, s1) \<Rightarrow> (Raise x, s1)
      | (SysExit n, s1) \<Rightarrow> (SysExit n, s1)
      | (Ok config, s1) \<Rightarrow>
          if ''--help'' \<in> set (argv e) \<or> ''-h'' \<in> set (argv e) then print_help s1
          else if ''--config'' \<in> set (argv e) then open_editor e s1
          else
            (let debug_mode = (''--debug'' \<in> set (argv e));
                 args = filter_flags (argv e)
             in case input_handling e args s1 of
                  (Raise x, s2) \<Rightarrow> (Raise x, s2)
                | (SysExit n, s2) \<Rightarrow> (SysExit n, s2)
                | (Ok user_input, s2) \<Rightarrow> request e debug_mode config user_input s2))"

section \<open>Reading a trace\<close>

text \<open>The requests sent to the remote API, in order.\<close>

fun is_post :: "event \<Rightarrow> bool" where
  "is_post (Post url body) = True"
| "is_post ev = False"

definition posts :: "event list \<Rightarrow> event list" where
  "posts tr = filter is_post tr"

text \<open>The text of the first part of the first content of a request body, read the way
  Python would: \<^verbatim>\<open>body["contents"][0]["parts"][0]["text"]\<close>.\<close>

definition payload_text :: "json \<Rightarrow> exn + json" where
  "payload_text body =
     and_then (getitem body ''contents'') (\<lambda>contents.
     and_then (getitem0 contents) (\<lambda>content.
     and_then (getitem content ''parts'') (\<lambda>parts.
     and_then (getitem0 parts) (\<lambda>part. getitem part ''text''))))"

section \<open>Sample runs\<close>

text \<open>
  An environment with the given arguments, terminal flag and reply of the remote API,
  and a start state with the given files and standard input.
\<close>

definition sample_env :: "string list \<Rightarrow> bool \<Rightarrow> http_result \<Rightarrow> env" where
  "sample_env av tty reply =
     \<lparr>argv = av, isatty = tty, home = ''/home/u'', EDITOR = None,
      http = (\<lambda>url body. reply), subprocess_call = (\<lambda>cmd. None)\<rparr>"

definition sample_state :: "dir option \<Rightarrow> string \<Rightarrow> state" where
  "sample_state files inp = \<lparr>fs = files, stdin = inp, trace = []\<rparr>"

definition unreachable :: http_result where
  "unreachable = NetworkError (RequestException ''Name or service not known'')"

text \<open>A data directory whose legacy key file holds only blanks and a newline.\<close>

definition blank_key_dir :: dir where
  "blank_key_dir = \<lparr>config_file = None, key_file = Some (''  '' @ [CHR 0x0A]), key_bak = None\<rparr>"

text \<open>A data directory whose config file holds only an API key.\<close>

definition key_only_dir :: "json \<Rightarrow> dir" where
  "key_only_dir k =
     \<lparr>config_file = Some (JSON (JObj [(''api_key'', k)])), key_file = None, key_bak = None\<rparr>"

section \<open>The shapes of a reply that the specification names\<close>

text \<open>
  The specification lists three shapes of a parsed reply: (a) blocked, it carries a
  prompt-feedback object that contains a block reason; (b) success, a candidates list is
  present and its first element contains a content whose first part has a text;
  (c) malformed or without content, no candidates list is present at all, or the first
  element of the list lacks a content. The predicates below follow these words; they are
  not read off the code.
\<close>

definition block_reason :: "json \<Rightarrow> json option" where
  "block_reason data =
     (case data of
        JObj kvs \<Rightarrow>
          (case map_of kvs ''promptFeedback'' of
             Some (JObj feedback) \<Rightarrow> map_of feedback ''blockReason''
           | _ \<Rightarrow> None)
      | _ \<Rightarrow> None)"

definition candidates_list :: "json \<Rightarrow> json list option" where
  "candidates_list data =
     (case data of
        JObj kvs \<Rightarrow> (case map_of kvs ''candidates'' of Some (JArr cs) \<Rightarrow> Some cs | _ \<Rightarrow> None)
      | _ \<Rightarrow> None)"

definition content_of :: "json \<Rightarrow> json option" where
  "content_of cand = (case cand of JObj kvs \<Rightarrow> map_of kvs ''content'' | _ \<Rightarrow> None)"

definition nested_text :: "json \<Rightarrow> string option" where
  "nested_text content =
     (case content of
        JObj kvs \<Rightarrow>
          (case map_of kvs ''parts'' of
             Some (JArr (JObj part # rest)) \<Rightarrow>
               (case map_of part ''text'' of Some (JStr t) \<Rightarrow> Some t | _ \<Rightarrow> None)
           | _ \<Rightarrow> None)
      | _ \<Rightarrow> None)"

definition shape_blocked :: "json \<Rightarrow> bool" where
  "shape_blocked data = (block_reason data \<noteq> None)"

definition shape_success :: "json \<Rightarrow> bool" where
  "shape_success data =
     (case candidates_list data of
        Some (cand # rest) \<Rightarrow>
          (case content_of cand of Some content \<Rightarrow> nested_text content \<noteq> None | None \<Rightarrow> False)
      | _ \<Rightarrow> False)"

definition shape_no_content :: "json \<Rightarrow> bool" where
  "shape_no_content data =
     (case candidates_list data of
        Some (cand # rest) \<Rightarrow> content_of cand = None
      | _ \<Rightarrow> False)"

definition shape_malformed :: "json \<Rightarrow> bool" where
  "shape_malformed data = (candidates_list data = None)"

definition documented_shape :: "json \<Rightarrow> bool" where
  "documented_shape data =
     (shape_blocked data \<or> shape_success data \<or> shape_no_content data \<or> shape_malformed data)"


text \<open>A reply of the remote API with an error status.\<close>

definition server_error :: http_result where
  "server_error = Response 500 ''server error'' None"

text \<open>Two parsed replies from outside the shapes above, and the HTTP reply that carries one.\<close>

definition empty_candidates :: json where
  "empty_candidates = JObj [(''candidates'', JArr [])]"

definition content_without_parts :: json where
  "content_without_parts = JObj [(''candidates'', JArr [JObj [(''content'', JObj [])]])]"

definition empty_candidates_reply :: http_result where
  "empty_candidates_reply = Response 200 (''{'' @ [CHR 0x22] @ ''candidates'' @ [CHR 0x22] @ '': []}'') (Some empty_candidates)"
section \<open>What each stage adds to the trace\<close>

lemma fs_emits [simp]: "fs (emits es s) = fs s"
  by (simp add: emits_def)

lemma stdin_emits [simp]: "stdin (emits es s) = stdin s"
  by (simp add: emits_def)

lemma trace_emits [simp]: "trace (emits es s) = trace s @ es"
  by (simp add: emits_def)

lemma posts_append [simp]: "posts (xs @ ys) = posts xs @ posts ys"
  by (simp add: posts_def)

lemma posts_Nil [simp]: "posts [] = []"
  by (simp add: posts_def)

lemma posts_Cons [simp]: "posts (ev # tr) = (if is_post ev then ev # posts tr else posts tr)"
  by (simp add: posts_def)

lemma posts_map_Print [simp]: "posts (map Print ls) = []"
  by (induction ls) simp_all

lemma Post_in_posts: "Post url body \<in> set tr \<Longrightarrow> Post url body \<in> set (posts tr)"
  by (simp add: posts_def)


lemma posts_first_run: "posts (trace (snd (first_run k s))) = posts (trace s)"
  by (simp add: first_run_def Let_def split: option.split prod.split)

lemma posts_load_config: "posts (trace (snd (load_config e s))) = posts (trace s)"
proof -
  obtain d s1 where ed: "ensure_dir s = (d, s1)"
    by (cases "ensure_dir s")
  then have p1: "posts (trace s1) = posts (trace s)"
    by (auto simp: ensure_dir_def split: option.splits)
  show ?thesis
  proof (cases "config_file d")
    case (Some c)
    with ed p1 show ?thesis
      by (cases c) (simp_all add: load_config_def)
  next
    case None
    obtain k d2 s2 where mg: "migrate d s1 = (k, d2, s2)"
      by (cases "migrate d s1")
    then have p2: "posts (trace s2) = posts (trace s1)"
      by (auto simp: migrate_def Let_def split: option.splits)
    obtain r s3 where fr: "first_run k s2 = (r, s3)"
      by (cases "first_run k s2")
    then have p3: "posts (trace s3) = posts (trace s2)"
      using posts_first_run [of k s2] by simp
    from None ed mg fr p1 p2 p3 show ?thesis
      by (cases r) (simp_all add: load_config_def save_config_def Let_def)
  qed
qed

lemma posts_render: "posts (trace (snd (render dbg data s))) = posts (trace s)"
  by (simp add: render_def split: sum.split bool.split)

lemma posts_try_body:
  "posts (trace (snd (try_body e dbg url body s))) = posts (trace s) @ [Post url body]"
  by (simp add: try_body_def Let_def posts_render split: http_result.split option.split)

lemma posts_send_request:
  "posts (trace (snd (send_request e dbg url body s))) = posts (trace s) @ [Post url body]"
proof -
  obtain r s1 where tb: "try_body e dbg url body s = (r, s1)"
    by (cases "try_body e dbg url body s")
  then have "posts (trace s1) = posts (trace s) @ [Post url body]"
    using posts_try_body [of e dbg url body s] by simp
  with tb show ?thesis
    by (cases r) (simp_all add: send_request_def)
qed

lemma posts_input_handling: "posts (trace (snd (input_handling e args s))) = posts (trace s)"
  by (simp add: input_handling_def print_help_def Let_def)

lemma fs_input_handling: "fs (snd (input_handling e args s)) = fs s"
  by (simp add: input_handling_def print_help_def Let_def)

lemma request_reaches_post:
  assumes "posts (trace s) = []" and "Post url body \<in> set (trace (snd (request e dbg config q s)))"
  shows "\<exists>api_key model_name system_instr gen_config s3.
           py_get config ''api_key'' JNull = Inr api_key \<and>
           py_get config ''model_name'' (JStr ''gemini-2.5-flash'') = Inr model_name \<and>
           py_get config ''system_instruction'' (JStr []) = Inr system_instr \<and>
           py_get config ''generation_config'' (JObj []) = Inr gen_config \<and>
           url = api_url model_name api_key \<and>
           body = payload q system_instr gen_config \<and>
           posts (trace s3) = [] \<and> fs s3 = fs s \<and>
           request e dbg config q s = send_request e dbg url body s3"
proof -
  have P: "Post url body \<in> set (posts (trace (snd (request e dbg config q s))))"
    using assms(2) by (rule Post_in_posts)
  show ?thesis
  proof (cases config)
    case (JObj kvs)
    define ak where "ak = (case map_of kvs ''api_key'' of None \<Rightarrow> JNull | Some v \<Rightarrow> v)"
    define mn where "mn = (case map_of kvs ''model_name'' of None \<Rightarrow> JStr ''gemini-2.5-flash'' | Some v \<Rightarrow> v)"
    define si where "si = (case map_of kvs ''system_instruction'' of None \<Rightarrow> JStr [] | Some v \<Rightarrow> v)"
    define gc where "gc = (case map_of kvs ''generation_config'' of None \<Rightarrow> JObj [] | Some v \<Rightarrow> v)"
    have gets: "py_get config ''api_key'' JNull = Inr ak"
      "py_get config ''model_name'' (JStr ''gemini-2.5-flash'') = Inr mn"
      "py_get config ''system_instruction'' (JStr []) = Inr si"
      "py_get config ''generation_config'' (JObj []) = Inr gc"
      using JObj by (simp_all add: ak_def mn_def si_def gc_def)
    have req: "request e dbg config q s =
        (if dbg then
           (case py_get gc ''temperature'' JNull of
              Inl x \<Rightarrow> (Raise x, s)
            | Inr temp \<Rightarrow> send_request e dbg (api_url mn ak) (payload q si gc)
                (emits [Print [Lit ''[Debug] Model: '', Fmt mn, Lit '' | Temp: '', Fmt temp]] s))
         else send_request e dbg (api_url mn ak) (payload q si gc) s)"
      by (simp add: request_def gets and_then_def)
    have "\<exists>s3. posts (trace s3) = [] \<and> fs s3 = fs s \<and>
            request e dbg config q s = send_request e dbg (api_url mn ak) (payload q si gc) s3"
    proof (cases dbg)
      case False
      with req have "request e dbg config q s = send_request e dbg (api_url mn ak) (payload q si gc) s"
        by simp
      with assms(1) show ?thesis by blast
    next
      case True
      show ?thesis
      proof (cases "py_get gc ''temperature'' JNull")
        case (Inl x)
        with True req have "request e dbg config q s = (Raise x, s)" by simp
        with P assms(1) have False by simp
        then show ?thesis ..
      next
        case (Inr temp)
        define s3 where "s3 = emits [Print [Lit ''[Debug] Model: '', Fmt mn, Lit '' | Temp: '', Fmt temp]] s"
        from True Inr req
        have "request e dbg config q s = send_request e dbg (api_url mn ak) (payload q si gc) s3"
          by (simp add: s3_def)
        moreover have "posts (trace s3) = []" "fs s3 = fs s"
          using assms(1) by (simp_all add: s3_def)
        ultimately show ?thesis by blast
      qed
    qed
    then obtain s3 where s3: "posts (trace s3) = []" "fs s3 = fs s"
        "request e dbg config q s = send_request e dbg (api_url mn ak) (payload q si gc) s3"
      by blast
    from P s3(1,3) have ub: "url = api_url mn ak" "body = payload q si gc"
      by (simp_all add: posts_send_request)
    show ?thesis
    proof (intro exI conjI)
      show "py_get config ''api_key'' JNull = Inr ak" by (rule gets(1))
      show "py_get config ''model_name'' (JStr ''gemini-2.5-flash'') = Inr mn" by (rule gets(2))
      show "py_get config ''system_instruction'' (JStr []) = Inr si" by (rule gets(3))
      show "py_get config ''generation_config'' (JObj []) = Inr gc" by (rule gets(4))
      show "url = api_url mn ak" by (rule ub(1))
      show "body = payload q si gc" by (rule ub(2))
      show "posts (trace s3) = []" by (rule s3(1))
      show "fs s3 = fs s" by (rule s3(2))
      show "request e dbg config q s = send_request e dbg url body s3"
        using s3(3) ub by simp
    qed
  qed (use P assms(1) in \<open>simp_all add: request_def and_then_def\<close>)
qed


lemma main_reaches_post:
  assumes "posts (trace s) = []" and "Post url body \<in> set (trace (snd (main e s)))"
  shows "\<exists>config s1 user_input s2 api_key model_name system_instr gen_config s3.
           load_config e s = (Ok config, s1) \<and>
           input_handling e (filter_flags (argv e)) s1 = (Ok user_input, s2) \<and>
           py_get config ''api_key'' JNull = Inr api_key \<and>
           py_get config ''model_name'' (JStr ''gemini-2.5-flash'') = Inr model_name \<and>
           py_get config ''system_instruction'' (JStr []) = Inr system_instr \<and>
           py_get config ''generation_config'' (JObj []) = Inr gen_config \<and>
           url = api_url model_name api_key \<and>
           body = payload user_input system_instr gen_config \<and>
           posts (trace s3) = [] \<and> fs s3 = fs s1 \<and>
           main e s = send_request e (''--debug'' \<in> set (argv e)) url body s3"
proof -
  have P: "Post url body \<in> set (posts (trace (snd (main e s))))"
    using assms(2) by (rule Post_in_posts)
  obtain r s1 where lc: "load_config e s = (r, s1)"
    by (cases "load_config e s")
  have p1: "posts (trace s1) = []"
    using posts_load_config [of e s] lc assms(1) by simp
  obtain r2 s2 where ih: "input_handling e (filter_flags (argv e)) s1 = (r2, s2)"
    by (cases "input_handling e (filter_flags (argv e)) s1")
  have p2: "posts (trace s2) = []" and f2: "fs s2 = fs s1"
    using posts_input_handling [of e "filter_flags (argv e)" s1]
      fs_input_handling [of e "filter_flags (argv e)" s1] ih p1 by simp_all
  show ?thesis
  proof (cases r)
    case (Ok config)
    show ?thesis
    proof (cases "''--help'' \<in> set (argv e) \<or> ''-h'' \<in> set (argv e)")
      case True
      with lc Ok have "main e s = print_help s1"
        by (simp add: main_def)
      then have "posts (trace (snd (main e s))) = []"
        using p1 by (simp add: print_help_def)
      with P have False by simp
      then show ?thesis ..
    next
      case nohelp: False
      show ?thesis
      proof (cases "''--config'' \<in> set (argv e)")
        case True
        with lc Ok nohelp have "main e s = open_editor e s1"
          by (simp add: main_def)
        then have "posts (trace (snd (main e s))) = []"
          using p1 by (simp add: open_editor_def Let_def split: option.split)
        with P have False by simp
        then show ?thesis ..
      next
        case noconfig: False
        show ?thesis
        proof (cases r2)
          case (Ok q)
          with lc \<open>r = Ok config\<close> nohelp noconfig ih
          have m: "main e s = request e (''--debug'' \<in> set (argv e)) config q s2"
            by (simp add: main_def Let_def)
          with assms(2)
          have "Post url body \<in> set (trace (snd (request e (''--debug'' \<in> set (argv e)) config q s2)))"
            by simp
          from request_reaches_post [OF p2 this]
          obtain api_key model_name system_instr gen_config s3 where
            g: "py_get config ''api_key'' JNull = Inr api_key"
               "py_get config ''model_name'' (JStr ''gemini-2.5-flash'') = Inr model_name"
               "py_get config ''system_instruction'' (JStr []) = Inr system_instr"
               "py_get config ''generation_config'' (JObj []) = Inr gen_config"
               "url = api_url model_name api_key"
               "body = payload q system_instr gen_config"
               "posts (trace s3) = []" "fs s3 = fs s2"
               "request e (''--debug'' \<in> set (argv e)) config q s2 =
                  send_request e (''--debug'' \<in> set (argv e)) url body s3"
            by blast
          show ?thesis
          proof (intro exI conjI)
            show "load_config e s = (Ok config, s1)" using lc \<open>r = Ok config\<close> by simp
            show "input_handling e (filter_flags (argv e)) s1 = (Ok q, s2)" using ih Ok by simp
            show "py_get config ''api_key'' JNull = Inr api_key" by (rule g(1))
            show "py_get config ''model_name'' (JStr ''gemini-2.5-flash'') = Inr model_name" by (rule g(2))
            show "py_get config ''system_instruction'' (JStr []) = Inr system_instr" by (rule g(3))
            show "py_get config ''generation_config'' (JObj []) = Inr gen_config" by (rule g(4))
            show "url = api_url model_name api_key" by (rule g(5))
            show "body = payload q system_instr gen_config" by (rule g(6))
            show "posts (trace s3) = []" by (rule g(7))
            show "fs s3 = fs s1" using g(8) f2 by simp
            show "main e s = send_request e (''--debug'' \<in> set (argv e)) url body s3"
              using m g(9) by simp
          qed
        next
          case (Raise x)
          with lc \<open>r = Ok config\<close> nohelp noconfig ih
          have "main e s = (Raise x, s2)"
            by (simp add: main_def Let_def)
          with P p2 have False by simp
          then show ?thesis ..
        next
          case (SysExit n)
          with lc \<open>r = Ok config\<close> nohelp noconfig ih
          have "main e s = (SysExit n, s2)"
            by (simp add: main_def Let_def)
          with P p2 have False by simp
          then show ?thesis ..
        qed
      qed
    qed
  next
    case (Raise x)
    with lc have "main e s = (Raise x, s1)" by (simp add: main_def)
    with P p1 have False by simp
    then show ?thesis ..
  next
    case (SysExit n)
    with lc have "main e s = (SysExit n, s1)" by (simp add: main_def)
    with P p1 have False by simp
    then show ?thesis ..
  qed
qed

section \<open>The configuration store\<close>

lemma isspace_newlines: "isspace (CHR 0x0D)" "isspace (CHR 0x0A)"
  by (simp_all add: isspace_def)

lemma strip_empty_iff: "strip s = [] \<longleftrightarrow> (\<forall>c\<in>set s. isspace c)"
proof -
  have a: "strip s = [] \<longleftrightarrow> dropWhile isspace (rev (dropWhile isspace s)) = []"
    by (simp add: strip_def rstrip_def lstrip_def)
  have b: "dropWhile isspace (rev (dropWhile isspace s)) = [] \<longleftrightarrow>
           (\<forall>c\<in>set (dropWhile isspace s). isspace c)"
    unfolding dropWhile_eq_Nil_conv by simp
  have c: "(\<forall>c\<in>set (dropWhile isspace s). isspace c) \<longleftrightarrow> dropWhile isspace s = []"
  proof
    assume all: "\<forall>c\<in>set (dropWhile isspace s). isspace c"
    show "dropWhile isspace s = []"
    proof (rule ccontr)
      assume ne: "dropWhile isspace s \<noteq> []"
      then have "\<not> isspace (hd (dropWhile isspace s))"
        by (rule hd_dropWhile)
      moreover from ne have "hd (dropWhile isspace s) \<in> set (dropWhile isspace s)"
        by (rule hd_in_set)
      ultimately show False using all by blast
    qed
  next
    assume "dropWhile isspace s = []"
    then show "\<forall>c\<in>set (dropWhile isspace s). isspace c"
      by (simp only: set_simps ball_empty)
  qed
  have d: "dropWhile isspace s = [] \<longleftrightarrow> (\<forall>c\<in>set s. isspace c)"
    by (rule dropWhile_eq_Nil_conv)
  from a b c d show ?thesis by blast
qed

lemma text_mode_all_space:
  "(\<forall>c\<in>set (text_mode s). isspace c) \<longleftrightarrow> (\<forall>c\<in>set s. isspace c)"
  by (induction s rule: text_mode.induct) (auto simp: isspace_newlines)

lemma strip_text_mode_empty [simp]: "strip (text_mode s) = [] \<longleftrightarrow> strip s = []"
  by (simp add: strip_empty_iff text_mode_all_space)

text \<open>
  The case that line 56 handles: when \<^verbatim>\<open>json.load\<close> raises \<^verbatim>\<open>JSONDecodeError\<close>, the two
  lines are printed and the process ends with status 1; the files and standard input are
  as before.
\<close>

lemma json_decode_error_is_fatal:
  assumes "fs s = Some d" and "config_file d = Some NotJSON"
  shows "load_config e s =
           (SysExit 1,
            s\<lparr>trace := trace s @
               [ReadConfig,
                Print [Lit ''[Error] Your config file ('', Fmt (JStr (CONFIG_FILE e)),
                       Lit '') is invalid JSON.''],
                Print [Lit ''Please fix it or delete it to reset defaults.'']]\<rparr>)"
  using assms by (simp add: load_config_def ensure_dir_def emits_def)

text \<open>
  C4: a config file can be invalid in ways that line 56 does not handle. When its bytes
  are not text, or its brackets are nested deeper than the parser can follow, the
  exception is not a \<^verbatim>\<open>JSONDecodeError\<close> and passes the handler: the process ends with a
  traceback and status 1, and the line that tells the user to fix or delete the file is
  never printed. Nothing is written in either run: the only event is the read of the file.
\<close>

theorem undecodable_config_gets_no_message:
  "main (sample_env [''ai'', ''hi''] True unreachable)
        (sample_state (Some \<lparr>config_file = Some NotUTF8, key_file = None, key_bak = None\<rparr>) []) =
     (Raise UnicodeDecodeError,
      \<lparr>fs = Some \<lparr>config_file = Some NotUTF8, key_file = None, key_bak = None\<rparr>,
       stdin = [], trace = [ReadConfig]\<rparr>)
   \<and> main (sample_env [''ai'', ''hi''] True unreachable)
        (sample_state (Some \<lparr>config_file = Some TooDeep, key_file = None, key_bak = None\<rparr>) []) =
     (Raise RecursionError,
      \<lparr>fs = Some \<lparr>config_file = Some TooDeep, key_file = None, key_bak = None\<rparr>,
       stdin = [], trace = [ReadConfig]\<rparr>)"
  by (simp add: main_def load_config_def ensure_dir_def emits_def sample_state_def)

text \<open>
  C10: with a legacy key file that strips to the empty string and no config file,
  \<open>load_config\<close> renames the key file to the backup before it looks at the key, then asks
  for a key; an answer that strips to the empty string ends the process with status 1. At
  that point the legacy file is gone from its path, the backup holds its text, and no
  config file has been written.
\<close>

theorem migration_not_atomic:
  assumes "fs s = Some d" and "config_file d = None" and "key_file d = Some k"
    and "strip k = []" and "readline (stdin s) = Some (line, rest)" and "strip line = []"
  shows "load_config e s =
           (SysExit 1,
            s\<lparr>fs := Some (d\<lparr>key_file := None, key_bak := Some k\<rparr>),
              stdin := rest,
              trace := trace s @
                [Print [Lit ''['', Fmt (JStr APP_NAME),
                        Lit ''] Migrating legacy key file to new config format...''],
                 ReadKey, RenameKey,
                 Print [Lit ''['', Fmt (JStr APP_NAME),
                   Lit ''] First run! Enter your Gemini API Key. Get the API key from aistudio.google.com''],
                 Input ''API Key: '',
                 Print [Lit ''Error: Key cannot be empty.'']]\<rparr>)
         \<and> exit_code (fst (main e s)) = 1
         \<and> snd (main e s) = snd (load_config e s)"
proof -
  have lc: "load_config e s =
           (SysExit 1,
            s\<lparr>fs := Some (d\<lparr>key_file := None, key_bak := Some k\<rparr>),
              stdin := rest,
              trace := trace s @
                [Print [Lit ''['', Fmt (JStr APP_NAME),
                        Lit ''] Migrating legacy key file to new config format...''],
                 ReadKey, RenameKey,
                 Print [Lit ''['', Fmt (JStr APP_NAME),
                   Lit ''] First run! Enter your Gemini API Key. Get the API key from aistudio.google.com''],
                 Input ''API Key: '',
                 Print [Lit ''Error: Key cannot be empty.'']]\<rparr>)"
    using assms
    by (simp add: load_config_def ensure_dir_def migrate_def first_run_def emits_def Let_def)
  then have "main e s = (SysExit 1, snd (load_config e s))"
    by (simp add: main_def)
  with lc show ?thesis by simp
qed

theorem migration_not_atomic_witness:
  "fs (sample_state (Some blank_key_dir) [CHR 0x0A]) = Some blank_key_dir
   \<and> config_file blank_key_dir = None
   \<and> key_file blank_key_dir = Some (''  '' @ [CHR 0x0A])
   \<and> strip (''  '' @ [CHR 0x0A]) = []
   \<and> readline (stdin (sample_state (Some blank_key_dir) [CHR 0x0A])) = Some ([], [])
   \<and> strip [] = []
   \<and> fst (load_config (sample_env [''ai'', ''hi''] True unreachable)
        (sample_state (Some blank_key_dir) [CHR 0x0A])) = SysExit 1
   \<and> fs (snd (load_config (sample_env [''ai'', ''hi''] True unreachable)
        (sample_state (Some blank_key_dir) [CHR 0x0A]))) =
      Some \<lparr>config_file = None, key_file = None, key_bak = Some (''  '' @ [CHR 0x0A])\<rparr>
   \<and> exit_code (fst (main (sample_env [''ai'', ''hi''] True unreachable)
        (sample_state (Some blank_key_dir) [CHR 0x0A]))) = 1"
proof -
  have h: "fs (sample_state (Some blank_key_dir) [CHR 0x0A]) = Some blank_key_dir"
    "config_file blank_key_dir = None"
    "key_file blank_key_dir = Some (''  '' @ [CHR 0x0A])"
    "strip (''  '' @ [CHR 0x0A]) = []"
    "readline (stdin (sample_state (Some blank_key_dir) [CHR 0x0A])) = Some ([], [])"
    "strip [] = []"
    by (simp_all add: sample_state_def blank_key_dir_def strip_def lstrip_def rstrip_def
          isspace_def readline_def)
  from migration_not_atomic [OF h, of "sample_env [''ai'', ''hi''] True unreachable"] h
  show ?thesis
    by (simp add: blank_key_dir_def)
qed

section \<open>The request and the reply\<close>

text \<open>
  C6: when the parsed reply is an object whose \<^verbatim>\<open>promptFeedback\<close> is an object with a
  \<^verbatim>\<open>blockReason\<close>, the renderer prints one line that holds the reason and calls
  \<^verbatim>\<open>sys.exit(0)\<close>; nothing else is printed and the candidates are not looked at. The
  exit is not an exception of the \<^verbatim>\<open>try\<close>: the request ends with status 0.
\<close>

theorem blocked_reply_exits_zero:
  assumes "map_of reply ''promptFeedback'' = Some (JObj feedback)"
    and "map_of feedback ''blockReason'' = Some reason"
  shows "render debug_mode (JObj reply) s =
           (SysExit 0, emits [Print [Lit ''[Blocked] Reason: '', Fmt reason]] s)
         \<and> (http e url body = Response 200 text (Some (JObj reply)) \<longrightarrow>
              send_request e debug_mode url body s =
                (SysExit 0,
                 emits ([Post url body] @
                        (if debug_mode then [Print [Lit ''[Debug] Status: '', Fmt (JInt 200)]] else []) @
                        [Print [Lit ''[Blocked] Reason: '', Fmt reason]]) s))"
proof -
  have r: "\<And>s. render debug_mode (JObj reply) s =
           (SysExit 0, emits [Print [Lit ''[Blocked] Reason: '', Fmt reason]] s)"
    using assms by (simp add: render_def blocked_check_def and_then_def)
  show ?thesis
    by (simp add: r send_request_def try_body_def Let_def emits_def)
qed

theorem blocked_reply_exits_zero_witness:
  "map_of [(''promptFeedback'', JObj [(''blockReason'', JStr ''SAFETY'')])] ''promptFeedback'' =
     Some (JObj [(''blockReason'', JStr ''SAFETY'')])
   \<and> map_of [(''blockReason'', JStr ''SAFETY'')] ''blockReason'' = Some (JStr ''SAFETY'')
   \<and> render False (JObj [(''promptFeedback'', JObj [(''blockReason'', JStr ''SAFETY'')])])
        (sample_state None []) =
      (SysExit 0,
       \<lparr>fs = None, stdin = [], trace = [Print [Lit ''[Blocked] Reason: '', Fmt (JStr ''SAFETY'')]]\<rparr>)"
  using blocked_reply_exits_zero
    [of "[(''promptFeedback'', JObj [(''blockReason'', JStr ''SAFETY'')])]"
        "[(''blockReason'', JStr ''SAFETY'')]" "JStr ''SAFETY''" False "sample_state None []"]
  by (simp add: sample_state_def emits_def)

text \<open>
  C8: the request body built from a query holds exactly that query as
  \<^verbatim>\<open>contents[0].parts[0].text\<close>, whatever the configuration. In a run of \<open>main\<close>, the
  body of the request that is sent holds the text that \<open>input_handling\<close> assembled from
  standard input and the arguments without the flags.
\<close>

theorem payload_carries_query:
  "payload_text (payload user_input system_instr gen_config) = Inr (JStr user_input)
   \<and> (posts (trace s) = [] \<and> Post url body \<in> set (trace (snd (main e s))) \<longrightarrow>
        (\<exists>config s1 query s2.
           load_config e s = (Ok config, s1) \<and>
           input_handling e (filter_flags (argv e)) s1 = (Ok query, s2) \<and>
           payload_text body = Inr (JStr query)))"
proof -
  have b: "\<And>q si gc. payload_text (payload q si gc) = Inr (JStr q)"
    by (simp add: payload_text_def payload_def and_then_def)
  have "\<exists>config s1 query s2.
           load_config e s = (Ok config, s1) \<and>
           input_handling e (filter_flags (argv e)) s1 = (Ok query, s2) \<and>
           payload_text body = Inr (JStr query)"
    if "posts (trace s) = []" and "Post url body \<in> set (trace (snd (main e s)))"
  proof -
    from main_reaches_post [OF that]
    obtain config s1 q s2 si gc where
      "load_config e s = (Ok config, s1)"
      "input_handling e (filter_flags (argv e)) s1 = (Ok q, s2)"
      "body = payload q si gc"
      by blast
    then show ?thesis using b by blast
  qed
  with b show ?thesis by blast
qed

lemmas run_defs =
  main_def load_config_def ensure_dir_def migrate_def first_run_def save_config_def
  print_help_def open_editor_def filter_flags_def FLAGS_def input_handling_def
  request_def send_request_def try_body_def render_def blocked_check_def candidate_text_def
  and_then_def emits_def readline_def strip_def lstrip_def rstrip_def isspace_def
  sample_env_def sample_state_def unreachable_def Let_def

theorem payload_carries_query_witness:
  "posts (trace (sample_state (Some (key_only_dir (JStr ''K''))) [])) = []
   \<and> Post (api_url (JStr ''gemini-2.5-flash'') (JStr ''K''))
           (payload ''explain recursion'' (JStr []) (JObj []))
        \<in> set (trace (snd (main (sample_env [''ai'', ''explain'', ''recursion''] True unreachable)
                                (sample_state (Some (key_only_dir (JStr ''K''))) []))))
   \<and> payload_text (payload ''explain recursion'' (JStr []) (JObj [])) =
        Inr (JStr ''explain recursion'')"
proof -
  have run: "Post (api_url (JStr ''gemini-2.5-flash'') (JStr ''K''))
           (payload ''explain recursion'' (JStr []) (JObj []))
        \<in> set (trace (snd (main (sample_env [''ai'', ''explain'', ''recursion''] True unreachable)
                                (sample_state (Some (key_only_dir (JStr ''K''))) []))))"
    by (simp add: run_defs key_only_dir_def)
  have start: "posts (trace (sample_state (Some (key_only_dir (JStr ''K''))) [])) = []"
    by (simp add: sample_state_def)
  from payload_carries_query
    [of "''explain recursion''" "JStr []" "JObj []"
        "sample_state (Some (key_only_dir (JStr ''K''))) []"
        "api_url (JStr ''gemini-2.5-flash'') (JStr ''K'')"
        "payload ''explain recursion'' (JStr []) (JObj [])"
        "sample_env [''ai'', ''explain'', ''recursion''] True unreachable"]
    run start
  show ?thesis by simp
qed

section \<open>Transport and rendering\<close>

lemma send_request_network_error:
  assumes "http e url body = NetworkError x"
  shows "send_request e dbg url body s =
           (Ok (), emits [Post url body,
                          Print [Lit [CHR 0x0A], Lit ''[Connection Error] '', FmtExc x]] s)"
  using assms by (simp add: send_request_def try_body_def Let_def emits_def)

lemma send_request_bad_status:
  assumes "http e url body = Response code text js" and "code \<noteq> 200"
  shows "send_request e dbg url body s =
           (SysExit 1,
            emits ([Post url body] @
                   (if dbg then [Print [Lit ''[Debug] Status: '', Fmt (JInt code)]] else []) @
                   [Print [Lit [CHR 0x0A], Lit ''[Error '', Fmt (JInt code), Lit '']''],
                    Print [Fmt (JStr text)]]) s)"
  using assms by (simp add: send_request_def try_body_def Let_def emits_def)

lemma and_then_Inr:
  assumes "and_then r f = Inr y"
  obtains a where "r = Inr a" and "f a = Inr y"
  using assms by (cases r) (simp_all add: and_then_def)

lemma getitem_Inr:
  assumes "getitem v k = Inr y"
  obtains kvs where "v = JObj kvs" and "map_of kvs k = Some y"
  using assms by (cases v) (simp_all split: option.splits)

lemma getitem0_Inr:
  assumes "getitem0 v = Inr y"
  obtains xs where "v = JArr (y # xs)" | c cs where "v = JStr (c # cs)" and "y = JStr [c]"
  using assms by (cases v) (auto split: list.splits)

lemma py_strip_Inr:
  assumes "py_strip v = Inr y"
  obtains t where "v = JStr t"
  using assms by (cases v) simp_all

lemma candidate_text_Inr:
  assumes "candidate_text cand = Inr t"
  obtains co content ptext where "cand = JObj co" and "map_of co ''content'' = Some content"
    and "nested_text content = Some ptext"
proof -
  from assms obtain content where
    c1: "getitem cand ''content'' = Inr content" and
    c2: "and_then (getitem content ''parts'') (\<lambda>parts.
           and_then (getitem0 parts) (\<lambda>part.
           and_then (getitem part ''text'') py_strip)) = Inr t"
    unfolding candidate_text_def by (rule and_then_Inr)
  from c2 obtain parts where
    p1: "getitem content ''parts'' = Inr parts" and
    p2: "and_then (getitem0 parts) (\<lambda>part. and_then (getitem part ''text'') py_strip) = Inr t"
    by (rule and_then_Inr)
  from p2 obtain part where
    q1: "getitem0 parts = Inr part" and
    q2: "and_then (getitem part ''text'') py_strip = Inr t"
    by (rule and_then_Inr)
  from q2 obtain tv where t1: "getitem part ''text'' = Inr tv" and t2: "py_strip tv = Inr t"
    by (rule and_then_Inr)
  from c1 obtain co where co: "cand = JObj co" "map_of co ''content'' = Some content"
    by (rule getitem_Inr)
  from p1 obtain c where c: "content = JObj c" "map_of c ''parts'' = Some parts"
    by (rule getitem_Inr)
  from t1 obtain p where p: "part = JObj p" "map_of p ''text'' = Some tv"
    by (rule getitem_Inr)
  from t2 obtain ptext where ptext: "tv = JStr ptext"
    by (rule py_strip_Inr)
  from q1 p(1) obtain xs where xs: "parts = JArr (JObj p # xs)"
    by (auto elim: getitem0_Inr)
  have "nested_text content = Some ptext"
    using c xs p(2) ptext by (simp add: nested_text_def)
  with co show ?thesis by (rule that)
qed

lemma blocked_check_cases:
  assumes "block_reason (JObj kvs) = None"
  shows "(\<exists>x. blocked_check (JObj kvs) = Inl x)
       \<or> (blocked_check (JObj kvs) = Inr True \<and>
          (\<exists>x. and_then (getitem (JObj kvs) ''promptFeedback'')
                  (\<lambda>pf. getitem pf ''blockReason'') = Inl x))
       \<or> blocked_check (JObj kvs) = Inr False"
proof (cases "map_of kvs ''promptFeedback''")
  case None
  then show ?thesis by (simp add: blocked_check_def and_then_def)
next
  case (Some v)
  with assms show ?thesis
    by (cases v) (simp_all add: blocked_check_def and_then_def block_reason_def)
qed

lemma render_raises:
  assumes "\<not> documented_shape data"
  shows "\<exists>x. \<forall>s. render dbg data s = (Raise x, s)"
proof -
  from assms have nb: "block_reason data = None"
    and ns: "\<not> shape_success data" and nc: "\<not> shape_no_content data"
    and nm: "candidates_list data \<noteq> None"
    by (simp_all add: documented_shape_def shape_blocked_def shape_malformed_def)
  from nm obtain cs where cl: "candidates_list data = Some cs" by blast
  then obtain kvs where data: "data = JObj kvs" and cands: "map_of kvs ''candidates'' = Some (JArr cs)"
    by (auto simp: candidates_list_def split: json.splits option.splits)
  have "\<exists>x. and_then (getitem data ''candidates'') getitem0 = Inl x
          \<or> (\<exists>cand. and_then (getitem data ''candidates'') getitem0 = Inr cand \<and>
               py_in ''content'' cand = Inr True \<and> candidate_text cand = Inl x)"
  proof (cases cs)
    case Nil
    with data cands show ?thesis by (simp add: and_then_def)
  next
    case (Cons cand rest)
    with cl nc obtain content where cont: "content_of cand = Some content"
      by (auto simp: shape_no_content_def)
    with cl Cons ns have nt: "nested_text content = None"
      by (simp add: shape_success_def)
    from cont obtain co where co: "cand = JObj co" "map_of co ''content'' = Some content"
      by (auto simp: content_of_def split: json.splits)
    have "\<exists>x. candidate_text cand = Inl x"
    proof (cases "candidate_text cand")
      case (Inl x)
      then show ?thesis by blast
    next
      case (Inr t)
      then obtain co' content' ptext where "cand = JObj co'" "map_of co' ''content'' = Some content'"
        "nested_text content' = Some ptext"
        by (rule candidate_text_Inr)
      with co nt have False by simp
      then show ?thesis ..
    qed
    with data cands Cons co show ?thesis by (auto simp: and_then_def)
  qed
  then obtain x where tail:
    "and_then (getitem data ''candidates'') getitem0 = Inl x
     \<or> (\<exists>cand. and_then (getitem data ''candidates'') getitem0 = Inr cand \<and>
          py_in ''content'' cand = Inr True \<and> candidate_text cand = Inl x)"
    by blast
  have pin: "py_in ''candidates'' data = Inr True"
    using data cands by simp
  have "(\<exists>x. blocked_check data = Inl x)
       \<or> (blocked_check data = Inr True \<and>
          (\<exists>x. and_then (getitem data ''promptFeedback'')
                  (\<lambda>pf. getitem pf ''blockReason'') = Inl x))
       \<or> blocked_check data = Inr False"
    using blocked_check_cases [of kvs] nb data by simp
  then consider
    (raise) x where "blocked_check data = Inl x"
    | (subscript) x where "blocked_check data = Inr True"
        "and_then (getitem data ''promptFeedback'') (\<lambda>pf. getitem pf ''blockReason'') = Inl x"
    | (clear) "blocked_check data = Inr False"
    by blast
  then show ?thesis
  proof cases
    case raise
    then show ?thesis by (simp add: render_def)
  next
    case subscript
    then show ?thesis by (simp add: render_def)
  next
    case clear
    with pin tail show ?thesis by (auto simp: render_def)
  qed
qed

text \<open>
  C7: in a run that sends the request, an exception raised by the POST itself is caught:
  \<open>main\<close> prints the connection-error line right after the request and returns, so the
  process ends with status 0. A reply with a status other than 200 makes \<open>main\<close> print
  the status line and the raw body and exit with status 1.
\<close>

theorem transport_failure_exit_codes:
  assumes "posts (trace s) = []" and "Post url body \<in> set (trace (snd (main e s)))"
  shows "(http e url body = NetworkError x \<longrightarrow>
            fst (main e s) = Ok () \<and> exit_code (fst (main e s)) = 0 \<and>
            (\<exists>before. trace (snd (main e s)) =
               before @ [Post url body,
                         Print [Lit [CHR 0x0A], Lit ''[Connection Error] '', FmtExc x]]))
       \<and> (http e url body = Response status_code text js \<and> status_code \<noteq> 200 \<longrightarrow>
            fst (main e s) = SysExit 1 \<and> exit_code (fst (main e s)) = 1 \<and>
            (\<exists>before. trace (snd (main e s)) =
               before @ [Print [Lit [CHR 0x0A], Lit ''[Error '', Fmt (JInt status_code), Lit '']''],
                         Print [Fmt (JStr text)]]))"
proof -
  from main_reaches_post [OF assms] obtain s3 where
    m: "main e s = send_request e (''--debug'' \<in> set (argv e)) url body s3"
    by (elim exE conjE)
  have net: "fst (main e s) = Ok () \<and> exit_code (fst (main e s)) = 0 \<and>
            (\<exists>before. trace (snd (main e s)) =
               before @ [Post url body,
                         Print [Lit [CHR 0x0A], Lit ''[Connection Error] '', FmtExc x]])"
    if h: "http e url body = NetworkError x"
  proof -
    have r: "main e s =
           (Ok (), emits [Post url body,
                          Print [Lit [CHR 0x0A], Lit ''[Connection Error] '', FmtExc x]] s3)"
      unfolding m by (rule send_request_network_error [OF h])
    have t: "trace (snd (main e s)) =
            trace s3 @ [Post url body,
                        Print [Lit [CHR 0x0A], Lit ''[Connection Error] '', FmtExc x]]"
      unfolding r by simp
    have ex: "\<exists>before. trace (snd (main e s)) =
               before @ [Post url body,
                         Print [Lit [CHR 0x0A], Lit ''[Connection Error] '', FmtExc x]]"
      by (rule exI [where x = "trace s3"]) (rule t)
    have f: "fst (main e s) = Ok ()" unfolding r by simp
    have c: "exit_code (fst (main e s)) = 0" unfolding f by simp
    from f c ex show ?thesis by (intro conjI)
  qed
  have bad: "fst (main e s) = SysExit 1 \<and> exit_code (fst (main e s)) = 1 \<and>
            (\<exists>before. trace (snd (main e s)) =
               before @ [Print [Lit [CHR 0x0A], Lit ''[Error '', Fmt (JInt status_code), Lit '']''],
                         Print [Fmt (JStr text)]])"
    if h: "http e url body = Response status_code text js" and n: "status_code \<noteq> 200"
  proof -
    have r: "main e s =
           (SysExit 1,
            emits ([Post url body] @
                   (if ''--debug'' \<in> set (argv e)
                    then [Print [Lit ''[Debug] Status: '', Fmt (JInt status_code)]] else []) @
                   [Print [Lit [CHR 0x0A], Lit ''[Error '', Fmt (JInt status_code), Lit '']''],
                    Print [Fmt (JStr text)]]) s3)"
      unfolding m by (rule send_request_bad_status [OF h n])
    have t: "trace (snd (main e s)) =
            (trace s3 @ [Post url body] @
               (if ''--debug'' \<in> set (argv e)
                then [Print [Lit ''[Debug] Status: '', Fmt (JInt status_code)]] else [])) @
            [Print [Lit [CHR 0x0A], Lit ''[Error '', Fmt (JInt status_code), Lit '']''],
             Print [Fmt (JStr text)]]"
      unfolding r by simp
    have ex: "\<exists>before. trace (snd (main e s)) =
               before @ [Print [Lit [CHR 0x0A], Lit ''[Error '', Fmt (JInt status_code), Lit '']''],
                         Print [Fmt (JStr text)]]"
      by (rule exI [where x = "trace s3 @ [Post url body] @
               (if ''--debug'' \<in> set (argv e)
                then [Print [Lit ''[Debug] Status: '', Fmt (JInt status_code)]] else [])"]) (rule t)
    have f: "fst (main e s) = SysExit 1" unfolding r by simp
    have c: "exit_code (fst (main e s)) = 1" unfolding f by simp
    from f c ex show ?thesis by (intro conjI)
  qed
  show ?thesis
  proof (rule conjI)
    show "http e url body = NetworkError x \<longrightarrow>
            fst (main e s) = Ok () \<and> exit_code (fst (main e s)) = 0 \<and>
            (\<exists>before. trace (snd (main e s)) =
               before @ [Post url body,
                         Print [Lit [CHR 0x0A], Lit ''[Connection Error] '', FmtExc x]])"
      by (rule impI) (rule net)
    show "http e url body = Response status_code text js \<and> status_code \<noteq> 200 \<longrightarrow>
            fst (main e s) = SysExit 1 \<and> exit_code (fst (main e s)) = 1 \<and>
            (\<exists>before. trace (snd (main e s)) =
               before @ [Print [Lit [CHR 0x0A], Lit ''[Error '', Fmt (JInt status_code), Lit '']''],
                         Print [Fmt (JStr text)]])"
      by (rule impI, elim conjE) (rule bad)
  qed
qed

theorem transport_failure_exit_codes_witness:
  "(posts (trace (sample_state (Some (key_only_dir (JStr ''K''))) [])) = []
    \<and> Post (api_url (JStr ''gemini-2.5-flash'') (JStr ''K'')) (payload ''hi'' (JStr []) (JObj []))
        \<in> set (trace (snd (main (sample_env [''ai'', ''hi''] True unreachable)
                                (sample_state (Some (key_only_dir (JStr ''K''))) []))))
    \<and> http (sample_env [''ai'', ''hi''] True unreachable)
         (api_url (JStr ''gemini-2.5-flash'') (JStr ''K'')) (payload ''hi'' (JStr []) (JObj [])) =
       NetworkError (RequestException ''Name or service not known'')
    \<and> fst (main (sample_env [''ai'', ''hi''] True unreachable)
                 (sample_state (Some (key_only_dir (JStr ''K''))) [])) = Ok ()
    \<and> exit_code (fst (main (sample_env [''ai'', ''hi''] True unreachable)
                            (sample_state (Some (key_only_dir (JStr ''K''))) []))) = 0)
   \<and> (Post (api_url (JStr ''gemini-2.5-flash'') (JStr ''K'')) (payload ''hi'' (JStr []) (JObj []))
        \<in> set (trace (snd (main (sample_env [''ai'', ''hi''] True server_error)
                                (sample_state (Some (key_only_dir (JStr ''K''))) []))))
    \<and> http (sample_env [''ai'', ''hi''] True server_error)
         (api_url (JStr ''gemini-2.5-flash'') (JStr ''K'')) (payload ''hi'' (JStr []) (JObj [])) =
       Response 500 ''server error'' None
    \<and> fst (main (sample_env [''ai'', ''hi''] True server_error)
                 (sample_state (Some (key_only_dir (JStr ''K''))) [])) = SysExit 1
    \<and> exit_code (fst (main (sample_env [''ai'', ''hi''] True server_error)
                            (sample_state (Some (key_only_dir (JStr ''K''))) []))) = 1)"
proof -
  have start: "posts (trace (sample_state (Some (key_only_dir (JStr ''K''))) [])) = []"
    by (simp add: sample_state_def)
  have run1: "Post (api_url (JStr ''gemini-2.5-flash'') (JStr ''K'')) (payload ''hi'' (JStr []) (JObj []))
        \<in> set (trace (snd (main (sample_env [''ai'', ''hi''] True unreachable)
                                (sample_state (Some (key_only_dir (JStr ''K''))) []))))"
    by (simp add: run_defs key_only_dir_def)
  have run2: "Post (api_url (JStr ''gemini-2.5-flash'') (JStr ''K'')) (payload ''hi'' (JStr []) (JObj []))
        \<in> set (trace (snd (main (sample_env [''ai'', ''hi''] True server_error)
                                (sample_state (Some (key_only_dir (JStr ''K''))) []))))"
    by (simp add: run_defs key_only_dir_def server_error_def)
  have net1: "http (sample_env [''ai'', ''hi''] True unreachable)
         (api_url (JStr ''gemini-2.5-flash'') (JStr ''K'')) (payload ''hi'' (JStr []) (JObj [])) =
       NetworkError (RequestException ''Name or service not known'')"
    by (simp add: sample_env_def unreachable_def)
  have net2: "http (sample_env [''ai'', ''hi''] True server_error)
         (api_url (JStr ''gemini-2.5-flash'') (JStr ''K'')) (payload ''hi'' (JStr []) (JObj [])) =
       Response 500 ''server error'' None \<and> (500::int) \<noteq> 200"
    by (simp add: sample_env_def server_error_def)
  note t1 = transport_failure_exit_codes
         [OF start run1, of "RequestException ''Name or service not known''", THEN conjunct1,
          THEN mp, OF net1]
  have e1: "fst (main (sample_env [''ai'', ''hi''] True unreachable)
                 (sample_state (Some (key_only_dir (JStr ''K''))) [])) = Ok ()"
    "exit_code (fst (main (sample_env [''ai'', ''hi''] True unreachable)
                            (sample_state (Some (key_only_dir (JStr ''K''))) []))) = 0"
    by (rule t1 [THEN conjunct1], rule t1 [THEN conjunct2, THEN conjunct1])
  note t2 = transport_failure_exit_codes
         [OF start run2, of _ 500 "''server error''" None, THEN conjunct2, THEN mp, OF net2]
  have e2: "fst (main (sample_env [''ai'', ''hi''] True server_error)
                 (sample_state (Some (key_only_dir (JStr ''K''))) [])) = SysExit 1"
    "exit_code (fst (main (sample_env [''ai'', ''hi''] True server_error)
                            (sample_state (Some (key_only_dir (JStr ''K''))) []))) = 1"
    by (rule t2 [THEN conjunct1], rule t2 [THEN conjunct2, THEN conjunct1])
  from net2 have net2': "http (sample_env [''ai'', ''hi''] True server_error)
         (api_url (JStr ''gemini-2.5-flash'') (JStr ''K'')) (payload ''hi'' (JStr []) (JObj [])) =
       Response 500 ''server error'' None"
    by (rule conjunct1)
  show ?thesis
    by (intro conjI) (rule start run1 run2 net1 net2' e1 e2)+
qed

lemma sample_shapes_undocumented:
  "\<not> documented_shape empty_candidates" "\<not> documented_shape content_without_parts"
  by (simp_all add: documented_shape_def shape_blocked_def shape_success_def shape_no_content_def
        shape_malformed_def block_reason_def candidates_list_def content_of_def nested_text_def
        empty_candidates_def content_without_parts_def)

lemma sample_shapes_raise:
  "render dbg empty_candidates s = (Raise IndexError, s)"
  "render dbg content_without_parts s = (Raise (KeyError (JStr ''parts'')), s)"
  by (simp_all add: render_def blocked_check_def candidate_text_def and_then_def
        empty_candidates_def content_without_parts_def)

text \<open>
  C9: a reply with status 200 whose parsed body has none of the shapes the specification
  names (for example an empty candidates list, or a first candidate whose content has no
  parts list or no text) makes the renderer raise, before it prints anything. The
  exception is caught by the handler around the request, so after the request (and the
  debug status line, in debug mode) the only output is the connection-error line, neither
  of the two notices, and \<open>main\<close> returns: the process ends with status 0.
\<close>

theorem undocumented_shape_is_connection_error:
  assumes "\<not> documented_shape data" and "http e url body = Response 200 text (Some data)"
  shows "(\<exists>x. render debug_mode data s = (Raise x, s) \<and>
              send_request e debug_mode url body s =
                (Ok (),
                 s\<lparr>trace := trace s @ [Post url body] @
                        (if debug_mode then [Print [Lit ''[Debug] Status: '', Fmt (JInt 200)]] else []) @
                        [Print [Lit [CHR 0x0A], Lit ''[Connection Error] '', FmtExc x]]\<rparr>))
       \<and> (posts (trace s0) = [] \<and> Post url body \<in> set (trace (snd (main e s0))) \<longrightarrow>
            fst (main e s0) = Ok () \<and> exit_code (fst (main e s0)) = 0)"
proof -
  from render_raises [OF assms(1), of debug_mode] obtain x where
    x: "\<And>s. render debug_mode data s = (Raise x, s)"
    by blast
  have sr: "send_request e debug_mode url body s =
                (Ok (),
                 s\<lparr>trace := trace s @ [Post url body] @
                        (if debug_mode then [Print [Lit ''[Debug] Status: '', Fmt (JInt 200)]] else []) @
                        [Print [Lit [CHR 0x0A], Lit ''[Connection Error] '', FmtExc x]]\<rparr>)"
    by (simp add: send_request_def try_body_def Let_def x assms(2) emits_def)
  have first: "\<exists>x. render debug_mode data s = (Raise x, s) \<and>
              send_request e debug_mode url body s =
                (Ok (),
                 s\<lparr>trace := trace s @ [Post url body] @
                        (if debug_mode then [Print [Lit ''[Debug] Status: '', Fmt (JInt 200)]] else []) @
                        [Print [Lit [CHR 0x0A], Lit ''[Connection Error] '', FmtExc x]]\<rparr>)"
    by (rule exI [where x = x], rule conjI, rule x, rule sr)
  have second: "fst (main e s0) = Ok () \<and> exit_code (fst (main e s0)) = 0"
    if p: "posts (trace s0) = []" and q: "Post url body \<in> set (trace (snd (main e s0)))"
  proof -
    from main_reaches_post [OF p q] obtain s3 where
      m: "main e s0 = send_request e (''--debug'' \<in> set (argv e)) url body s3"
      by (elim exE conjE)
    from render_raises [OF assms(1), of "''--debug'' \<in> set (argv e)"] obtain y where
      y: "\<And>s. render (''--debug'' \<in> set (argv e)) data s = (Raise y, s)"
      by blast
    have f: "fst (main e s0) = Ok ()"
      unfolding m by (simp add: send_request_def try_body_def Let_def y assms(2))
    have c: "exit_code (fst (main e s0)) = 0"
      unfolding f by simp
    from f c show ?thesis by (rule conjI)
  qed
  show ?thesis
  proof (rule conjI)
    show "\<exists>x. render debug_mode data s = (Raise x, s) \<and>
              send_request e debug_mode url body s =
                (Ok (),
                 s\<lparr>trace := trace s @ [Post url body] @
                        (if debug_mode then [Print [Lit ''[Debug] Status: '', Fmt (JInt 200)]] else []) @
                        [Print [Lit [CHR 0x0A], Lit ''[Connection Error] '', FmtExc x]]\<rparr>)"
      by (rule first)
    show "posts (trace s0) = [] \<and> Post url body \<in> set (trace (snd (main e s0))) \<longrightarrow>
            fst (main e s0) = Ok () \<and> exit_code (fst (main e s0)) = 0"
      by (rule impI, elim conjE) (rule second)
  qed
qed

theorem undocumented_shape_is_connection_error_witness:
  "\<not> documented_shape empty_candidates
   \<and> http (sample_env [''ai'', ''hi''] True empty_candidates_reply)
        (api_url (JStr ''gemini-2.5-flash'') (JStr ''K'')) (payload ''hi'' (JStr []) (JObj [])) =
      Response 200 (''{'' @ [CHR 0x22] @ ''candidates'' @ [CHR 0x22] @ '': []}'') (Some empty_candidates)
   \<and> posts (trace (sample_state (Some (key_only_dir (JStr ''K''))) [])) = []
   \<and> Post (api_url (JStr ''gemini-2.5-flash'') (JStr ''K'')) (payload ''hi'' (JStr []) (JObj []))
        \<in> set (trace (snd (main (sample_env [''ai'', ''hi''] True empty_candidates_reply)
                                (sample_state (Some (key_only_dir (JStr ''K''))) []))))
   \<and> fst (main (sample_env [''ai'', ''hi''] True empty_candidates_reply)
                (sample_state (Some (key_only_dir (JStr ''K''))) [])) = Ok ()
   \<and> exit_code (fst (main (sample_env [''ai'', ''hi''] True empty_candidates_reply)
                           (sample_state (Some (key_only_dir (JStr ''K''))) []))) = 0
   \<and> trace (snd (main (sample_env [''ai'', ''hi''] True empty_candidates_reply)
                      (sample_state (Some (key_only_dir (JStr ''K''))) []))) =
       [ReadConfig,
        Post (api_url (JStr ''gemini-2.5-flash'') (JStr ''K'')) (payload ''hi'' (JStr []) (JObj [])),
        Print [Lit [CHR 0x0A], Lit ''[Connection Error] '', FmtExc IndexError]]"
proof -
  have shape: "\<not> documented_shape empty_candidates"
    by (rule sample_shapes_undocumented)
  have net: "http (sample_env [''ai'', ''hi''] True empty_candidates_reply)
        (api_url (JStr ''gemini-2.5-flash'') (JStr ''K'')) (payload ''hi'' (JStr []) (JObj [])) =
      Response 200 (''{'' @ [CHR 0x22] @ ''candidates'' @ [CHR 0x22] @ '': []}'') (Some empty_candidates)"
    by (simp add: sample_env_def empty_candidates_reply_def)
  have start: "posts (trace (sample_state (Some (key_only_dir (JStr ''K''))) [])) = []"
    by (simp add: sample_state_def)
  have tr: "trace (snd (main (sample_env [''ai'', ''hi''] True empty_candidates_reply)
                      (sample_state (Some (key_only_dir (JStr ''K''))) []))) =
       [ReadConfig,
        Post (api_url (JStr ''gemini-2.5-flash'') (JStr ''K'')) (payload ''hi'' (JStr []) (JObj [])),
        Print [Lit [CHR 0x0A], Lit ''[Connection Error] '', FmtExc IndexError]]"
    by (simp add: run_defs key_only_dir_def empty_candidates_reply_def empty_candidates_def)
  have run: "Post (api_url (JStr ''gemini-2.5-flash'') (JStr ''K'')) (payload ''hi'' (JStr []) (JObj []))
        \<in> set (trace (snd (main (sample_env [''ai'', ''hi''] True empty_candidates_reply)
                                (sample_state (Some (key_only_dir (JStr ''K''))) []))))"
    unfolding tr by simp
  note t = undocumented_shape_is_connection_error
             [OF shape net, THEN conjunct2, THEN mp, OF conjI, OF start run]
  show ?thesis
    by (intro conjI) (rule shape net start run tr t [THEN conjunct1] t [THEN conjunct2])+
qed

section \<open>Query assembly\<close>




end
